theory Spec2Isabelle
  imports Complex_Main
begin

section \<open>Values shared by both services\<close>

text \<open>
  Go's \<^verbatim>\<open>int\<close> is modelled by \<^typ>\<open>int\<close>: every integer the two programs compute is
  a digit sum or a point total far below \<open>2 ^ 63\<close>. The only runtime failure either
  program could raise is an index out of range, which Go turns into a panic; the model
  returns it as a value.
\<close>

datatype error = IndexOutOfRange

subsection \<open>float64\<close>

text \<open>
  The nutrient values and the threshold tables are \<^verbatim>\<open>float64\<close>. The program never does
  arithmetic on them: it only compares them with \<^verbatim>\<open>>\<close>. A \<^verbatim>\<open>float64\<close> is therefore
  modelled by the number it denotes (a rational; the two zeros compare equal and are one
  value here), or one of the infinities, or NaN. Every comparison with NaN is false.
\<close>

datatype float64 = NaN | NegInf | Fin rat | PosInf

fun f64_gt :: "float64 \<Rightarrow> float64 \<Rightarrow> bool" where
  "f64_gt NaN _ = False"
| "f64_gt _ NaN = False"
| "f64_gt NegInf _ = False"
| "f64_gt (Fin a) NegInf = True"
| "f64_gt (Fin a) (Fin b) = (b < a)"
| "f64_gt (Fin a) PosInf = False"
| "f64_gt PosInf PosInf = False"
| "f64_gt PosInf _ = True"

fun f64_le :: "float64 \<Rightarrow> float64 \<Rightarrow> bool" where
  "f64_le NaN _ = False"
| "f64_le _ NaN = False"
| "f64_le NegInf _ = True"
| "f64_le (Fin a) NegInf = False"
| "f64_le (Fin a) (Fin b) = (a \<le> b)"
| "f64_le (Fin a) PosInf = True"
| "f64_le PosInf PosInf = True"
| "f64_le PosInf _ = False"

text \<open>
  The conversion \<^verbatim>\<open>float64(score)\<close> of an \<^verbatim>\<open>int\<close>. It is exact below \<open>2 ^ 53\<close> in
  absolute value; beyond, Go rounds to the nearest \<^verbatim>\<open>float64\<close>, which is monotone and
  leaves every small integer fixed, so that the comparisons with the grade thresholds
  (integers between \<open>-2\<close> and \<open>18\<close>) give the same answer as on the exact value.
\<close>

definition float64_of_int :: "int \<Rightarrow> float64" where
  "float64_of_int i = Fin (of_int i)"

section \<open>Nutri-Score (nutritional-score/nutritionalscore.go)\<close>

subsection \<open>Data\<close>

text \<open>
  \<^verbatim>\<open>type ScoreType int\<close> with the constants \<^verbatim>\<open>Food = iota\<close>, \<^verbatim>\<open>Beverage\<close>, \<^verbatim>\<open>Water\<close>,
  \<^verbatim>\<open>Cheese\<close>. The type is an integer, not a closed enumeration: a decoded request can
  carry any value.
\<close>

type_synonym ScoreType = int

definition Food :: ScoreType where "Food = 0"
definition Beverage :: ScoreType where "Beverage = 1"
definition Water :: ScoreType where "Water = 2"
definition Cheese :: ScoreType where "Cheese = 3"

record NutritionalData =
  Energy :: float64
  Sugars :: float64
  SaturatedFattyAcids :: float64
  Sodium :: float64
  Fruits :: float64
  Fiber :: float64
  Protein :: float64
  IsWater :: bool
  FoodType :: ScoreType

record NutritionalScore =
  Value :: int
  Grade :: string
  Positive :: int
  Negative :: int
  ScoreType :: ScoreType

definition gradeScale :: "string list" where
  "gradeScale = [''A'', ''B'', ''C'', ''D'', ''E'']"

definition energyLevels :: "float64 list" where
  "energyLevels = map Fin [3350, 3015, 2680, 2345, 2010, 1675, 1340, 1005, 670, 335]"

definition sugarsLevels :: "float64 list" where
  "sugarsLevels = map Fin [45, 40, 36, 31, 27, 22.5, 18, 13.5, 9, 4.5]"

definition saturatedFattyAcidsLevels :: "float64 list" where
  "saturatedFattyAcidsLevels = map Fin [10, 9, 8, 7, 6, 5, 4, 3, 2, 1]"

definition sodiumLevels :: "float64 list" where
  "sodiumLevels = map Fin [900, 810, 720, 630, 540, 450, 360, 270, 180, 90]"

text \<open>
  The fiber and protein thresholds are decimal constants that are not \<^verbatim>\<open>float64\<close>
  values; Go stores the nearest \<^verbatim>\<open>float64\<close>. The tables hold those stored values:
  \<^verbatim>\<open>4.7, 3.7, 2.8, 1.9, 0.9\<close> and \<^verbatim>\<open>8, 6.4, 4.8, 3.2, 1.6\<close> in the source.
\<close>

definition fiberLevels :: "float64 list" where
  "fiberLevels = map Fin
     [5291729562160333 / 2 ^ 50, 4165829655317709 / 2 ^ 50, 3152519739159347 / 2 ^ 50,
      4278419646001971 / 2 ^ 51, 8106479329266893 / 2 ^ 53]"

definition proteinLevels :: "float64 list" where
  "proteinLevels = map Fin
     [8, 3602879701896397 / 2 ^ 49, 5404319552844595 / 2 ^ 50,
      3602879701896397 / 2 ^ 50, 3602879701896397 / 2 ^ 51]"

definition energyLevelsBeverage :: "float64 list" where
  "energyLevelsBeverage = map Fin [270, 240, 210, 180, 150, 120, 90, 60, 30, 0]"

definition sugarsLevelsBeverage :: "float64 list" where
  "sugarsLevelsBeverage = map Fin [13.5, 12, 10.5, 9, 7.5, 6, 4.5, 3, 1.5, 0]"

subsection \<open>Point lookup\<close>

text \<open>
  \<^verbatim>\<open>getPointsFromRange\<close>: the loop \<^verbatim>\<open>for i, l := range levels\<close> returns
  \<^verbatim>\<open>lenLevels - i\<close> at the first \<^verbatim>\<open>l\<close> with \<^verbatim>\<open>v > l\<close>, and the function returns 0 when
  the loop ends. \<open>getPointsLoop\<close> is the loop from index \<open>i\<close> on, over the rest of the
  slice.
\<close>

fun getPointsLoop :: "float64 \<Rightarrow> int \<Rightarrow> int \<Rightarrow> float64 list \<Rightarrow> int" where
  "getPointsLoop v lenLevels i [] = 0"
| "getPointsLoop v lenLevels i (l # ls) =
     (if f64_gt v l then lenLevels - i else getPointsLoop v lenLevels (i + 1) ls)"

definition getPointsFromRange :: "float64 \<Rightarrow> float64 list \<Rightarrow> int" where
  "getPointsFromRange v levels = getPointsLoop v (int (length levels)) 0 levels"

definition EnergyKJ_GetPoints :: "float64 \<Rightarrow> ScoreType \<Rightarrow> int" where
  "EnergyKJ_GetPoints e st =
     (if st = Beverage then getPointsFromRange e energyLevelsBeverage
      else getPointsFromRange e energyLevels)"

definition SugarGram_GetPoints :: "float64 \<Rightarrow> ScoreType \<Rightarrow> int" where
  "SugarGram_GetPoints s st =
     (if st = Beverage then getPointsFromRange s sugarsLevelsBeverage
      else getPointsFromRange s sugarsLevels)"

definition SaturatedFattyAcids_GetPoints :: "float64 \<Rightarrow> ScoreType \<Rightarrow> int" where
  "SaturatedFattyAcids_GetPoints sfa st = getPointsFromRange sfa saturatedFattyAcidsLevels"

definition SodiumMilligram_GetPoints :: "float64 \<Rightarrow> ScoreType \<Rightarrow> int" where
  "SodiumMilligram_GetPoints s st = getPointsFromRange s sodiumLevels"

definition FruitsPercent_GetPoints :: "float64 \<Rightarrow> ScoreType \<Rightarrow> int" where
  "FruitsPercent_GetPoints f st =
     (if st = Beverage then
        (if f64_gt f (Fin 80) then 10
         else if f64_gt f (Fin 60) then 4
         else if f64_gt f (Fin 40) then 2
         else 0)
      else if f64_gt f (Fin 80) then 5
      else if f64_gt f (Fin 60) then 2
      else if f64_gt f (Fin 40) then 1
      else 0)"

definition FiberGram_GetPoints :: "float64 \<Rightarrow> ScoreType \<Rightarrow> int" where
  "FiberGram_GetPoints f st = getPointsFromRange f fiberLevels"

definition ProteinGram_GetPoints :: "float64 \<Rightarrow> ScoreType \<Rightarrow> int" where
  "ProteinGram_GetPoints p st = getPointsFromRange p proteinLevels"

subsection \<open>Score and grade\<close>

text \<open>
  A slice index expression \<^verbatim>\<open>gradeScale[k]\<close> panics unless \<open>0 \<le> k < len\<close>.
\<close>

definition index_slice :: "'a list \<Rightarrow> int \<Rightarrow> error + 'a" where
  "index_slice xs k =
     (if 0 \<le> k \<and> k < int (length xs) then Inr (xs ! nat k) else Inl IndexOutOfRange)"

definition CalcNutriGrade :: "NutritionalData \<Rightarrow> int \<Rightarrow> error + string" where
  "CalcNutriGrade ns score =
     (if FoodType ns = Food then
        index_slice gradeScale
          (getPointsFromRange (float64_of_int score) (map Fin [18, 10, 2, -1]))
      else if FoodType ns = Water then index_slice gradeScale 0
      else
        index_slice gradeScale
          (getPointsFromRange (float64_of_int score) (map Fin [9, 5, 1, -2])))"

text \<open>
  \<^verbatim>\<open>CalcNutritionalScore\<close>. The locals \<^verbatim>\<open>value\<close>, \<^verbatim>\<open>positive\<close> and \<^verbatim>\<open>negative\<close>
  start at 0 and are assigned only inside \<^verbatim>\<open>if st != Water\<close>; the triple bound below
  holds their values after that block.
\<close>

definition CalcNutritionalScore :: "NutritionalData \<Rightarrow> error + NutritionalScore" where
  "CalcNutritionalScore n =
     (let st = FoodType n;
          (value, positive, negative) =
            (if st \<noteq> Water then
               (let fruitPoints = FruitsPercent_GetPoints (Fruits n) st;
                    fibrePoints = FiberGram_GetPoints (Fiber n) st;
                    negative = EnergyKJ_GetPoints (Energy n) st
                               + SugarGram_GetPoints (Sugars n) st
                               + SaturatedFattyAcids_GetPoints (SaturatedFattyAcids n) st
                               + SodiumMilligram_GetPoints (Sodium n) st;
                    positive = fruitPoints + fibrePoints
                               + ProteinGram_GetPoints (Protein n) st
                in if st = Cheese then (negative - positive, positive, negative)
                   else if negative \<ge> 11 \<and> fruitPoints < 5
                     then (negative - fibrePoints - fruitPoints, positive, negative)
                   else (negative - positive, positive, negative))
             else (0, 0, 0))
      in case CalcNutriGrade n value of
           Inl e \<Rightarrow> Inl e
         | Inr grade \<Rightarrow>
             Inr \<lparr>Value = value, Grade = grade, Positive = positive, Negative = negative,
                  ScoreType = st\<rparr>)"

section \<open>Luhn check (credit-card-validator/main.go)\<close>

text \<open>
  A Go string is a sequence of bytes, as \<^typ>\<open>string\<close> is. The loop
  \<^verbatim>\<open>for i, char := range input\<close> decodes UTF-8: at a byte below \<open>0x80\<close> it yields that
  byte as the rune, one byte wide, with \<open>i\<close> its byte offset; at any other byte it yields
  a rune that is at least \<open>0x80\<close> (a decoded code point, or U+FFFD for an invalid
  sequence). \<^verbatim>\<open>strconv.Atoi\<close> of a one-rune string succeeds exactly on \<^verbatim>\<open>0\<close> to \<^verbatim>\<open>9\<close>
  (a lone sign is a syntax error), so the loop returns at the first byte that is not an
  ASCII digit, and the width of a wider rune is never used. The model reads bytes.
\<close>

definition Atoi :: "char \<Rightarrow> int option" where
  "Atoi c =
     (if (48::nat) \<le> of_char c \<and> of_char c \<le> (57::nat) then Some (int (of_char c) - 48)
      else None)"

text \<open>
  The first loop, from offset \<open>i\<close> on: \<open>Inr None\<close> is the early \<^verbatim>\<open>return false\<close>,
  \<open>Inr (Some digits)\<close> the slice when the loop ends, \<open>Inl\<close> a panic of
  \<^verbatim>\<open>digits[i] = digit\<close>.
\<close>

fun parseLoop :: "int \<Rightarrow> string \<Rightarrow> int list \<Rightarrow> error + int list option" where
  "parseLoop i [] digits = Inr (Some digits)"
| "parseLoop i (char # rest) digits =
     (case Atoi char of
        None \<Rightarrow> Inr None
      | Some digit \<Rightarrow>
          if 0 \<le> i \<and> i < int (length digits)
          then parseLoop (i + 1) rest (digits[nat i := digit])
          else Inl IndexOutOfRange)"

text \<open>The second loop: \<^verbatim>\<open>for i := len(digits) - 2; i >= 0; i -= 2\<close>.\<close>

function doubleLoop :: "int \<Rightarrow> int list \<Rightarrow> error + int list" where
  "doubleLoop i digits =
     (if i \<ge> 0 then
        (if i < int (length digits) then
           (let doubled = digits ! nat i * 2;
                doubled = (if doubled > 9 then doubled - 9 else doubled)
            in doubleLoop (i - 2) (digits[nat i := doubled]))
         else Inl IndexOutOfRange)
      else Inr digits)"
  by pat_completeness auto
termination
  by (relation "measure (\<lambda>(i, digits). nat (i + 1))") auto

text \<open>The third loop: \<^verbatim>\<open>for _, digit := range digits { sum += digit }\<close>, with \<open>acc\<close> for \<^verbatim>\<open>sum\<close>.\<close>

fun sumLoop :: "int \<Rightarrow> int list \<Rightarrow> int" where
  "sumLoop acc [] = acc"
| "sumLoop acc (digit # rest) = sumLoop (acc + digit) rest"

text \<open>
  \<^verbatim>\<open>make([]int, len(input))\<close> is a slice of zeros, one per byte. Go's \<^verbatim>\<open>%\<close> truncates
  toward zero, and its result is 0 exactly when 10 divides the sum, as with \<open>mod\<close>.
\<close>

definition luhnAlgorithm :: "string \<Rightarrow> error + bool" where
  "luhnAlgorithm input =
     (case parseLoop 0 input (replicate (length input) 0) of
        Inl e \<Rightarrow> Inl e
      | Inr None \<Rightarrow> Inr False
      | Inr (Some digits) \<Rightarrow>
          (case doubleLoop (int (length digits) - 2) digits of
             Inl e \<Rightarrow> Inl e
           | Inr digits' \<Rightarrow> Inr (sumLoop 0 digits' mod 10 = 0)))"

section \<open>What the specification says about the Luhn check\<close>

text \<open>
  The specification's reading of the validator, written from its words and independent
  of the loops above. A decimal digit is one of the ten characters \<^verbatim>\<open>0\<close> to \<^verbatim>\<open>9\<close>, and
  its value is its distance from \<^verbatim>\<open>0\<close>.
\<close>

definition is_decimal_digit :: "char \<Rightarrow> bool" where
  "is_decimal_digit c = (c \<in> set ''0123456789'')"

definition digit_value :: "char \<Rightarrow> int" where
  "digit_value c = int (of_char c) - 48"

text \<open>
  Walking leftward from the last digit: the last digit is taken as it is, the
  second-to-last is doubled, and so on alternately; a doubled value above 9 loses 9.
  \<open>spec_walk dbl ds\<close> walks the digits \<open>ds\<close> listed from the right, \<open>dbl\<close> telling
  whether the next one is doubled.
\<close>

fun spec_walk :: "bool \<Rightarrow> int list \<Rightarrow> int" where
  "spec_walk dbl [] = 0"
| "spec_walk dbl (d # ds) =
     (if dbl then (if 2 * d > 9 then 2 * d - 9 else 2 * d) else d) + spec_walk (\<not> dbl) ds"

definition spec_luhn_sum :: "int list \<Rightarrow> int" where
  "spec_luhn_sum digits = spec_walk False (rev digits)"

definition spec_IsValid :: "string \<Rightarrow> bool" where
  "spec_IsValid s = (10 dvd spec_luhn_sum (map digit_value s))"

text \<open>
  For the proofs only: the effect of the second loop on the digits to the left of the
  last one, listed from the right.
\<close>

fun alt_double :: "int list \<Rightarrow> int list" where
  "alt_double [] = []"
| "alt_double [d] = [if d * 2 > 9 then d * 2 - 9 else d * 2]"
| "alt_double (d # e # r) = (if d * 2 > 9 then d * 2 - 9 else d * 2) # e # alt_double r"

section \<open>Properties of the point lookup\<close>

lemma f64_gt_mono: "f64_le v v' \<Longrightarrow> f64_gt v l \<Longrightarrow> f64_gt v' l"
  by (cases v; cases v'; cases l) auto

lemma getPointsLoop_bounds:
  "lenLevels = i + int (length ls) \<Longrightarrow>
   0 \<le> getPointsLoop v lenLevels i ls \<and> getPointsLoop v lenLevels i ls \<le> int (length ls)"
  by (induction ls arbitrary: i) auto

lemma getPointsFromRange_bounds:
  "0 \<le> getPointsFromRange v levels \<and> getPointsFromRange v levels \<le> int (length levels)"
  using getPointsLoop_bounds [of "int (length levels)" 0 levels v]
  by (simp add: getPointsFromRange_def)

lemma getPointsLoop_mono:
  "f64_le v v' \<Longrightarrow> lenLevels = i + int (length ls) \<Longrightarrow>
   getPointsLoop v lenLevels i ls \<le> getPointsLoop v' lenLevels i ls"
proof (induction ls arbitrary: i)
  case Nil
  then show ?case by simp
next
  case (Cons l ls)
  show ?case
  proof (cases "f64_gt v' l")
    case True
    have "getPointsLoop v lenLevels i (l # ls) \<le> int (length (l # ls))"
      using getPointsLoop_bounds [OF Cons.prems(2)] by blast
    with True Cons.prems(2) show ?thesis by simp
  next
    case False
    then have "\<not> f64_gt v l" using f64_gt_mono [OF Cons.prems(1)] by blast
    moreover have "getPointsLoop v lenLevels (i + 1) ls \<le> getPointsLoop v' lenLevels (i + 1) ls"
      using Cons.prems by (intro Cons.IH) auto
    ultimately show ?thesis using False by simp
  qed
qed

lemma getPointsFromRange_mono:
  "f64_le v v' \<Longrightarrow> getPointsFromRange v levels \<le> getPointsFromRange v' levels"
  using getPointsLoop_mono [of v v' "int (length levels)" 0 levels]
  by (simp add: getPointsFromRange_def)

lemma getPointsLoop_first:
  "k < length ls \<Longrightarrow> f64_gt v (ls ! k) \<Longrightarrow> \<forall>j<k. \<not> f64_gt v (ls ! j) \<Longrightarrow>
   getPointsLoop v lenLevels i ls = lenLevels - (i + int k)"
proof (induction ls arbitrary: i k)
  case Nil
  then show ?case by simp
next
  case (Cons l ls)
  show ?case
  proof (cases k)
    case 0
    with Cons.prems show ?thesis by simp
  next
    case (Suc k')
    with Cons.prems have "\<not> f64_gt v l" by auto
    moreover have "getPointsLoop v lenLevels (i + 1) ls = lenLevels - (i + 1 + int k')"
      using Cons.prems Suc by (intro Cons.IH) auto
    ultimately show ?thesis using Suc by simp
  qed
qed

lemma getPointsLoop_none:
  "\<forall>j<length ls. \<not> f64_gt v (ls ! j) \<Longrightarrow> getPointsLoop v lenLevels i ls = 0"
proof (induction ls arbitrary: i)
  case Nil
  then show ?case by simp
next
  case (Cons l ls)
  then have "\<not> f64_gt v l" by auto
  moreover have "getPointsLoop v lenLevels (i + 1) ls = 0"
    using Cons.prems by (intro Cons.IH) auto
  ultimately show ?case by simp
qed

section \<open>Properties of the grade and the score\<close>

lemma index_gradeScale:
  "0 \<le> k \<Longrightarrow> k \<le> 4 \<Longrightarrow>
   \<exists>g. index_slice gradeScale k = Inr g \<and> g \<in> {''A'', ''B'', ''C'', ''D'', ''E''}"
proof -
  assume "0 \<le> k" "k \<le> 4"
  then have "k = 0 \<or> k = 1 \<or> k = 2 \<or> k = 3 \<or> k = 4" by arith
  then show ?thesis
    by (auto simp: index_slice_def gradeScale_def)
qed

lemma CalcNutriGrade_total:
  "\<exists>g. CalcNutriGrade ns score = Inr g \<and> g \<in> {''A'', ''B'', ''C'', ''D'', ''E''}"
proof -
  have a: "0 \<le> getPointsFromRange x (map Fin [a, b, c, d])
      \<and> getPointsFromRange x (map Fin [a, b, c, d]) \<le> 4" for x a b c d
    using getPointsFromRange_bounds [of x "map Fin [a, b, c, d]"] by simp
  have z: "\<exists>g. index_slice gradeScale 0 = Inr g \<and> g \<in> {''A'', ''B'', ''C'', ''D'', ''E''}"
    by (rule index_gradeScale) simp_all
  show ?thesis
    unfolding CalcNutriGrade_def
    using a z index_gradeScale by (simp del: list.map)
qed

lemma CalcNutritionalScore_Water:
  "FoodType n = Water \<Longrightarrow>
   CalcNutritionalScore n
     = Inr \<lparr>Value = 0, Grade = ''A'', Positive = 0, Negative = 0, ScoreType = Water\<rparr>"
  by (simp add: CalcNutritionalScore_def CalcNutriGrade_def Water_def Food_def index_slice_def
      gradeScale_def)

lemma CalcNutritionalScore_other:
  fixes n :: NutritionalData
  defines "st \<equiv> FoodType n"
  defines "fruit \<equiv> FruitsPercent_GetPoints (Fruits n) st"
  defines "fibre \<equiv> FiberGram_GetPoints (Fiber n) st"
  defines "neg \<equiv> EnergyKJ_GetPoints (Energy n) st + SugarGram_GetPoints (Sugars n) st
                 + SaturatedFattyAcids_GetPoints (SaturatedFattyAcids n) st
                 + SodiumMilligram_GetPoints (Sodium n) st"
  defines "pos \<equiv> fruit + fibre + ProteinGram_GetPoints (Protein n) st"
  defines "val \<equiv> (if st = Cheese then neg - pos
                   else if neg \<ge> 11 \<and> fruit < 5 then neg - fibre - fruit
                   else neg - pos)"
  assumes nw: "FoodType n \<noteq> Water"
  shows "\<exists>g. g \<in> {''A'', ''B'', ''C'', ''D'', ''E''} \<and>
           CalcNutritionalScore n
             = Inr \<lparr>Value = val, Grade = g, Positive = pos, Negative = neg, ScoreType = st\<rparr>"
proof -
  obtain g where g: "CalcNutriGrade n val = Inr g" "g \<in> {''A'', ''B'', ''C'', ''D'', ''E''}"
    using CalcNutriGrade_total by blast
  show ?thesis
  proof (intro exI conjI)
    show "g \<in> {''A'', ''B'', ''C'', ''D'', ''E''}" by (rule g(2))
    show "CalcNutritionalScore n
        = Inr \<lparr>Value = val, Grade = g, Positive = pos, Negative = neg, ScoreType = st\<rparr>"
      using nw g(1)
      unfolding val_def pos_def neg_def fibre_def fruit_def st_def
      by (auto simp add: CalcNutritionalScore_def Let_def split: if_splits)
  qed
qed

lemmas nutri_defs =
  CalcNutritionalScore_def CalcNutriGrade_def Food_def Water_def Cheese_def Beverage_def
  FruitsPercent_GetPoints_def FiberGram_GetPoints_def EnergyKJ_GetPoints_def
  SugarGram_GetPoints_def SaturatedFattyAcids_GetPoints_def SodiumMilligram_GetPoints_def
  ProteinGram_GetPoints_def getPointsFromRange_def energyLevels_def sugarsLevels_def
  saturatedFattyAcidsLevels_def sodiumLevels_def fiberLevels_def proteinLevels_def
  energyLevelsBeverage_def sugarsLevelsBeverage_def float64_of_int_def index_slice_def
  gradeScale_def

section \<open>Properties of the Luhn loops\<close>

lemma Atoi_digit: "Atoi c = (if is_decimal_digit c then Some (digit_value c) else None)"
proof -
  have a: "is_decimal_digit c \<Longrightarrow> (48::nat) \<le> of_char c \<and> of_char c \<le> (57::nat)"
    by (auto simp: is_decimal_digit_def)
  have inj: "c = d" if "(of_char c :: nat) = of_char d" for d
    using that by (simp only: of_char_eq_iff)
  have b: "c \<in> set ''0123456789''" if "(48::nat) \<le> of_char c" "of_char c \<le> (57::nat)"
  proof -
    from that have "(of_char c :: nat) \<in> {48, 49, 50, 51, 52, 53, 54, 55, 56, 57}"
      by simp presburger
    then show ?thesis
      using inj [of "CHR ''0''"] inj [of "CHR ''1''"] inj [of "CHR ''2''"] inj [of "CHR ''3''"]
        inj [of "CHR ''4''"] inj [of "CHR ''5''"] inj [of "CHR ''6''"] inj [of "CHR ''7''"]
        inj [of "CHR ''8''"] inj [of "CHR ''9''"]
      by auto
  qed
  show ?thesis using a b by (auto simp: Atoi_def digit_value_def is_decimal_digit_def)
qed

lemma parseLoop_nondigit:
  "0 \<le> i \<Longrightarrow> i + int (length input) \<le> int (length digits) \<Longrightarrow>
   \<exists>c\<in>set input. Atoi c = None \<Longrightarrow> parseLoop i input digits = Inr None"
proof (induction input arbitrary: i digits)
  case Nil
  then show ?case by simp
next
  case (Cons c cs)
  show ?case
  proof (cases "Atoi c")
    case None
    then show ?thesis by simp
  next
    case (Some d)
    with Cons.prems have ex: "\<exists>c\<in>set cs. Atoi c = None" by auto
    have "parseLoop (i + 1) cs (digits[nat i := d]) = Inr None"
      using Cons.prems ex by (intro Cons.IH) auto
    with Some Cons.prems show ?thesis by simp
  qed
qed

lemma parseLoop_digits:
  "\<forall>c\<in>set input. Atoi c \<noteq> None \<Longrightarrow>
   parseLoop (int (length pre)) input (pre @ replicate (length input) 0)
     = Inr (Some (pre @ map (\<lambda>c. the (Atoi c)) input))"
proof (induction input arbitrary: pre)
  case Nil
  then show ?case by simp
next
  case (Cons c cs)
  then obtain d where d: "Atoi c = Some d" by auto
  have "parseLoop (int (length (pre @ [d]))) cs ((pre @ [d]) @ replicate (length cs) 0)
      = Inr (Some ((pre @ [d]) @ map (\<lambda>c. the (Atoi c)) cs))"
    using Cons.prems by (intro Cons.IH) auto
  then show ?case using d by (simp add: list_update_append add.commute)
qed

lemma length_alt_double [simp]: "length (alt_double r) = length r"
  by (induction r rule: alt_double.induct) auto

lemma doubleLoop_alt:
  "doubleLoop (int (length r) - 1) (rev r @ suf) = Inr (rev (alt_double r) @ suf)"
proof (induction r arbitrary: suf rule: alt_double.induct)
  case 1
  then show ?case by simp
next
  case (2 d)
  then show ?case by (subst doubleLoop.simps) (simp add: Let_def)
next
  case (3 d e r)
  have "doubleLoop (int (length r) - 1)
          (rev r @ (e # (if d * 2 > 9 then d * 2 - 9 else d * 2) # suf))
      = Inr (rev (alt_double r) @ (e # (if d * 2 > 9 then d * 2 - 9 else d * 2) # suf))"
    by (rule 3)
  moreover have "(rev r @ e # d # suf) ! (Suc (length r)) = d"
    by (simp add: nth_append)
  moreover have "(rev r @ e # d # suf)[Suc (length r) := x] = rev r @ e # x # suf" for x
    by (simp add: list_update_append)
  ultimately show ?case
    by (subst doubleLoop.simps) (simp add: Let_def nat_add_distrib)
qed

lemma sumLoop_sum_list: "sumLoop acc ds = acc + sum_list ds"
  by (induction ds arbitrary: acc) auto

lemma spec_walk_alt: "spec_walk True r = sum_list (alt_double r)"
  by (induction r rule: alt_double.induct) (auto simp: mult.commute)

lemma luhn_digits:
  assumes "\<forall>c\<in>set input. is_decimal_digit c"
  shows "luhnAlgorithm input = Inr (spec_IsValid input)"
proof -
  have p: "parseLoop 0 input (replicate (length input) 0) = Inr (Some (map digit_value input))"
  proof -
    have "\<forall>c\<in>set input. Atoi c \<noteq> None" using assms by (simp add: Atoi_digit)
    from parseLoop_digits [OF this, of "[]"]
    have "parseLoop 0 input (replicate (length input) 0)
        = Inr (Some (map (\<lambda>c. the (Atoi c)) input))"
      by simp
    moreover have "map (\<lambda>c. the (Atoi c)) input = map digit_value input"
      using assms by (simp add: Atoi_digit)
    ultimately show ?thesis by simp
  qed
  show ?thesis
  proof (cases "rev (map digit_value input)")
    case Nil
    then have "input = []" by simp
    then show ?thesis
      by (simp add: luhnAlgorithm_def spec_IsValid_def spec_luhn_sum_def)
  next
    case (Cons c r)
    then have ds: "map digit_value input = rev r @ [c]"
      by (metis rev_rev_ident rev.simps(2))
    have len: "int (length (map digit_value input)) - 2 = int (length r) - 1"
      by (simp add: ds)
    have "doubleLoop (int (length (map digit_value input)) - 2) (map digit_value input)
        = Inr (rev (alt_double r) @ [c])"
      unfolding len unfolding ds by (rule doubleLoop_alt)
    moreover have "spec_luhn_sum (map digit_value input) = c + sum_list (alt_double r)"
      by (simp add: spec_luhn_sum_def Cons spec_walk_alt)
    ultimately show ?thesis
      using p
      by (simp add: luhnAlgorithm_def spec_IsValid_def sumLoop_sum_list dvd_eq_mod_eq_0
          add.commute)
  qed
qed

lemma luhn_nondigit:
  assumes "\<exists>c\<in>set input. \<not> is_decimal_digit c"
  shows "luhnAlgorithm input = Inr False"
proof -
  have "\<exists>c\<in>set input. Atoi c = None" using assms by (auto simp: Atoi_digit)
  then have "parseLoop 0 input (replicate (length input) 0) = Inr None"
    by (intro parseLoop_nondigit) auto
  then show ?thesis by (simp add: luhnAlgorithm_def)
qed

section \<open>The claims\<close>

subsection \<open>Nutri-Score: a Food sample with energy 3370 kJ\<close>

text \<open>
  Claim C1, as amended. For the Food input with energy 3370 kJ and sugar, saturated fat,
  sodium, fruit percentage, fiber and protein all 0 (whatever the water flag),
  \<^verbatim>\<open>CalcNutritionalScore\<close> returns negative points 10, positive points 0, score 10 and
  grade \<^verbatim>\<open>C\<close>: against the Food thresholds 18, 10, 2, -1 the comparison is strict, so a
  score of 10 exceeds neither 18 nor 10 and first exceeds 2, at index 2, which gives
  \<open>4 - 2 = 2\<close>, the index of \<^verbatim>\<open>C\<close>.
\<close>

theorem C1_food_energy_3370_grade_C:
  "CalcNutritionalScore
     \<lparr>Energy = Fin 3370, Sugars = Fin 0, SaturatedFattyAcids = Fin 0, Sodium = Fin 0,
      Fruits = Fin 0, Fiber = Fin 0, Protein = Fin 0, IsWater = w, FoodType = Food\<rparr>
   = Inr \<lparr>Value = 10, Grade = ''C'', Positive = 0, Negative = 10, ScoreType = Food\<rparr>"
  by (simp add: nutri_defs)

text \<open>
  Claim C1 as stated gives grade \<^verbatim>\<open>B\<close> for that input. The four values it names are
  not all returned: the grade differs.
\<close>

theorem C1_grade_B_counterexample:
  "\<not> (map_sum id Negative (CalcNutritionalScore
          \<lparr>Energy = Fin 3370, Sugars = Fin 0, SaturatedFattyAcids = Fin 0, Sodium = Fin 0,
           Fruits = Fin 0, Fiber = Fin 0, Protein = Fin 0, IsWater = False,
           FoodType = Food\<rparr>) = Inr 10
      \<and> map_sum id Positive (CalcNutritionalScore
          \<lparr>Energy = Fin 3370, Sugars = Fin 0, SaturatedFattyAcids = Fin 0, Sodium = Fin 0,
           Fruits = Fin 0, Fiber = Fin 0, Protein = Fin 0, IsWater = False,
           FoodType = Food\<rparr>) = Inr 0
      \<and> map_sum id Value (CalcNutritionalScore
          \<lparr>Energy = Fin 3370, Sugars = Fin 0, SaturatedFattyAcids = Fin 0, Sodium = Fin 0,
           Fruits = Fin 0, Fiber = Fin 0, Protein = Fin 0, IsWater = False,
           FoodType = Food\<rparr>) = Inr 10
      \<and> map_sum id Grade (CalcNutritionalScore
          \<lparr>Energy = Fin 3370, Sugars = Fin 0, SaturatedFattyAcids = Fin 0, Sodium = Fin 0,
           Fruits = Fin 0, Fiber = Fin 0, Protein = Fin 0, IsWater = False,
           FoodType = Food\<rparr>) = Inr ''B'')"
  by (simp add: nutri_defs)

subsection \<open>Nutri-Score: water\<close>

text \<open>
  Claim C2. Whenever the category tag is Water, \<^verbatim>\<open>CalcNutritionalScore\<close> returns score
  0 and grade \<^verbatim>\<open>A\<close>, with both point subtotals left at 0, whatever the other fields
  hold.
\<close>

theorem C2_water_score_0_grade_A:
  "FoodType n = Water \<Longrightarrow>
   CalcNutritionalScore n
     = Inr \<lparr>Value = 0, Grade = ''A'', Positive = 0, Negative = 0, ScoreType = Water\<rparr>"
  by (rule CalcNutritionalScore_Water)

theorem C2_water_score_0_grade_A_witness:
  "FoodType \<lparr>Energy = Fin 3370, Sugars = Fin 50, SaturatedFattyAcids = Fin 11,
             Sodium = Fin 1000, Fruits = Fin 90, Fiber = Fin 5, Protein = Fin 9,
             IsWater = False, FoodType = Water\<rparr> = Water
   \<and> CalcNutritionalScore
       \<lparr>Energy = Fin 3370, Sugars = Fin 50, SaturatedFattyAcids = Fin 11,
        Sodium = Fin 1000, Fruits = Fin 90, Fiber = Fin 5, Protein = Fin 9,
        IsWater = False, FoodType = Water\<rparr>
     = Inr \<lparr>Value = 0, Grade = ''A'', Positive = 0, Negative = 0, ScoreType = Water\<rparr>"
  using C2_water_score_0_grade_A
    [of "\<lparr>Energy = Fin 3370, Sugars = Fin 50, SaturatedFattyAcids = Fin 11,
          Sodium = Fin 1000, Fruits = Fin 90, Fiber = Fin 5, Protein = Fin 9,
          IsWater = False, FoodType = Water\<rparr>"]
  by simp

subsection \<open>Luhn: the checksum on digit strings\<close>

text \<open>
  Claim C3. On every string of decimal digits \<^verbatim>\<open>luhnAlgorithm\<close> returns, without a
  panic, whether 10 divides the sum the specification describes: every other digit
  doubled, walking leftward from the second-to-last one, 9 taken off a doubled value
  above 9, and all digits summed. In particular \<^verbatim>\<open>4539148803436467\<close> is valid and
  \<^verbatim>\<open>4539148803436468\<close> is not.
\<close>

theorem C3_luhn_checksum:
  "((\<forall>c\<in>set input. is_decimal_digit c) \<longrightarrow>
      luhnAlgorithm input = Inr (10 dvd spec_luhn_sum (map digit_value input)))
   \<and> luhnAlgorithm ''4539148803436467'' = Inr True
   \<and> luhnAlgorithm ''4539148803436468'' = Inr False"
proof (intro conjI impI)
  assume "\<forall>c\<in>set input. is_decimal_digit c"
  then show "luhnAlgorithm input = Inr (10 dvd spec_luhn_sum (map digit_value input))"
    using luhn_digits by (simp add: spec_IsValid_def)
next
  show "luhnAlgorithm ''4539148803436467'' = Inr True"
    by (simp add: luhnAlgorithm_def Atoi_def)
next
  show "luhnAlgorithm ''4539148803436468'' = Inr False"
    by (simp add: luhnAlgorithm_def Atoi_def)
qed

theorem C3_luhn_checksum_witness:
  "list_all is_decimal_digit ''79927398713''
   \<and> spec_luhn_sum (map digit_value ''79927398713'') = 70
   \<and> luhnAlgorithm ''79927398713'' = Inr True"
  using C3_luhn_checksum [of "''79927398713''"]
  by (simp add: is_decimal_digit_def spec_luhn_sum_def digit_value_def)

subsection \<open>Nutri-Score: the generic point lookup\<close>

text \<open>
  Claim C4. For every value \<open>v\<close> and every threshold table (ordered descending or not),
  \<^verbatim>\<open>getPointsFromRange\<close> returns \<open>len(levels) - i\<close> for the first index \<open>i\<close> with
  \<open>v > levels[i]\<close>, the comparison being strict, and 0 when \<open>v\<close> exceeds no threshold.
  Energy and sugar points are looked up in the beverage tables exactly when the category
  is Beverage, and in the general tables otherwise.
\<close>

theorem C4_point_lookup:
  "(\<forall>i<length levels.
      f64_gt v (levels ! i) \<and> (\<forall>j<i. \<not> f64_gt v (levels ! j)) \<longrightarrow>
      getPointsFromRange v levels = int (length levels) - int i)
   \<and> ((\<forall>i<length levels. \<not> f64_gt v (levels ! i)) \<longrightarrow> getPointsFromRange v levels = 0)
   \<and> EnergyKJ_GetPoints e st
       = getPointsFromRange e (if st = Beverage then energyLevelsBeverage else energyLevels)
   \<and> SugarGram_GetPoints s st
       = getPointsFromRange s (if st = Beverage then sugarsLevelsBeverage else sugarsLevels)"
proof (intro conjI allI impI)
  fix i
  assume "i < length levels"
    and "f64_gt v (levels ! i) \<and> (\<forall>j<i. \<not> f64_gt v (levels ! j))"
  then show "getPointsFromRange v levels = int (length levels) - int i"
    using getPointsLoop_first [of i levels v "int (length levels)" 0]
    by (simp add: getPointsFromRange_def)
next
  assume "\<forall>i<length levels. \<not> f64_gt v (levels ! i)"
  then show "getPointsFromRange v levels = 0"
    using getPointsLoop_none [of levels v "int (length levels)" 0]
    by (simp add: getPointsFromRange_def)
next
  show "EnergyKJ_GetPoints e st
      = getPointsFromRange e (if st = Beverage then energyLevelsBeverage else energyLevels)"
    by (simp add: EnergyKJ_GetPoints_def)
next
  show "SugarGram_GetPoints s st
      = getPointsFromRange s (if st = Beverage then sugarsLevelsBeverage else sugarsLevels)"
    by (simp add: SugarGram_GetPoints_def)
qed

theorem C4_point_lookup_witness:
  "1 < length sugarsLevels
   \<and> f64_gt (Fin 45) (sugarsLevels ! 1) \<and> \<not> f64_gt (Fin 45) (sugarsLevels ! 0)
   \<and> getPointsFromRange (Fin 45) sugarsLevels = 9
   \<and> list_all (\<lambda>l. \<not> f64_gt (Fin 4.5) l) sugarsLevels
   \<and> getPointsFromRange (Fin 4.5) sugarsLevels = 0"
proof -
  have l: "length sugarsLevels = 10" by (simp add: sugarsLevels_def)
  have a: "f64_gt (Fin 45) (sugarsLevels ! 1)" "\<not> f64_gt (Fin 45) (sugarsLevels ! 0)"
    by (simp_all add: sugarsLevels_def)
  have b: "list_all (\<lambda>l. \<not> f64_gt (Fin 4.5) l) sugarsLevels"
    by (simp add: sugarsLevels_def)
  have c: "getPointsFromRange (Fin 45) sugarsLevels = 9"
  proof -
    from C4_point_lookup [of sugarsLevels "Fin 45"]
    have "\<forall>i<length sugarsLevels.
        f64_gt (Fin 45) (sugarsLevels ! i) \<and> (\<forall>j<i. \<not> f64_gt (Fin 45) (sugarsLevels ! j)) \<longrightarrow>
        getPointsFromRange (Fin 45) sugarsLevels = int (length sugarsLevels) - int i"
      by (rule conjunct1)
    then have "getPointsFromRange (Fin 45) sugarsLevels = int (length sugarsLevels) - int 1"
      using a l by (elim allE [of _ 1]) simp
    then show ?thesis by (simp add: l)
  qed
  have d: "getPointsFromRange (Fin 4.5) sugarsLevels = 0"
  proof -
    have "\<forall>i<length sugarsLevels. \<not> f64_gt (Fin 4.5) (sugarsLevels ! i)"
      using b by (simp add: list_all_length)
    with C4_point_lookup [of sugarsLevels "Fin 4.5"] show ?thesis by blast
  qed
  show ?thesis using l a b c d by simp
qed

subsection \<open>Nutri-Score: combining the points\<close>

text \<open>
  Claim C5. For every input whose category is not Water the call returns, with
  negative = energy + sugar + saturated-fat + sodium points and positive = fruit + fiber +
  protein points: for Cheese, score = negative - positive unconditionally; for any other
  category, score = negative - fiber points - fruit points when negative is at least 11
  and the fruit points are below 5 (the protein points are left out), and
  score = negative - positive otherwise.
\<close>

theorem C5_score_combination:
  assumes "FoodType n \<noteq> Water"
  shows "\<exists>r. CalcNutritionalScore n = Inr r
    \<and> Negative r = EnergyKJ_GetPoints (Energy n) (FoodType n)
                   + SugarGram_GetPoints (Sugars n) (FoodType n)
                   + SaturatedFattyAcids_GetPoints (SaturatedFattyAcids n) (FoodType n)
                   + SodiumMilligram_GetPoints (Sodium n) (FoodType n)
    \<and> Positive r = FruitsPercent_GetPoints (Fruits n) (FoodType n)
                   + FiberGram_GetPoints (Fiber n) (FoodType n)
                   + ProteinGram_GetPoints (Protein n) (FoodType n)
    \<and> Value r =
        (if FoodType n = Cheese then Negative r - Positive r
         else if Negative r \<ge> 11 \<and> FruitsPercent_GetPoints (Fruits n) (FoodType n) < 5
           then Negative r - FiberGram_GetPoints (Fiber n) (FoodType n)
                - FruitsPercent_GetPoints (Fruits n) (FoodType n)
         else Negative r - Positive r)"
proof -
  from CalcNutritionalScore_other [OF assms]
  obtain g where "CalcNutritionalScore n =
      Inr \<lparr>Value =
             (if FoodType n = Cheese
              then EnergyKJ_GetPoints (Energy n) (FoodType n)
                   + SugarGram_GetPoints (Sugars n) (FoodType n)
                   + SaturatedFattyAcids_GetPoints (SaturatedFattyAcids n) (FoodType n)
                   + SodiumMilligram_GetPoints (Sodium n) (FoodType n)
                   - (FruitsPercent_GetPoints (Fruits n) (FoodType n)
                      + FiberGram_GetPoints (Fiber n) (FoodType n)
                      + ProteinGram_GetPoints (Protein n) (FoodType n))
              else if 11 \<le> EnergyKJ_GetPoints (Energy n) (FoodType n)
                           + SugarGram_GetPoints (Sugars n) (FoodType n)
                           + SaturatedFattyAcids_GetPoints (SaturatedFattyAcids n) (FoodType n)
                           + SodiumMilligram_GetPoints (Sodium n) (FoodType n)
                     \<and> FruitsPercent_GetPoints (Fruits n) (FoodType n) < 5
              then EnergyKJ_GetPoints (Energy n) (FoodType n)
                   + SugarGram_GetPoints (Sugars n) (FoodType n)
                   + SaturatedFattyAcids_GetPoints (SaturatedFattyAcids n) (FoodType n)
                   + SodiumMilligram_GetPoints (Sodium n) (FoodType n)
                   - FiberGram_GetPoints (Fiber n) (FoodType n)
                   - FruitsPercent_GetPoints (Fruits n) (FoodType n)
              else EnergyKJ_GetPoints (Energy n) (FoodType n)
                   + SugarGram_GetPoints (Sugars n) (FoodType n)
                   + SaturatedFattyAcids_GetPoints (SaturatedFattyAcids n) (FoodType n)
                   + SodiumMilligram_GetPoints (Sodium n) (FoodType n)
                   - (FruitsPercent_GetPoints (Fruits n) (FoodType n)
                      + FiberGram_GetPoints (Fiber n) (FoodType n)
                      + ProteinGram_GetPoints (Protein n) (FoodType n))),
           Grade = g,
           Positive = FruitsPercent_GetPoints (Fruits n) (FoodType n)
                      + FiberGram_GetPoints (Fiber n) (FoodType n)
                      + ProteinGram_GetPoints (Protein n) (FoodType n),
           Negative = EnergyKJ_GetPoints (Energy n) (FoodType n)
                   + SugarGram_GetPoints (Sugars n) (FoodType n)
                   + SaturatedFattyAcids_GetPoints (SaturatedFattyAcids n) (FoodType n)
                   + SodiumMilligram_GetPoints (Sodium n) (FoodType n),
           ScoreType = FoodType n\<rparr>"
    by blast
  then show ?thesis by simp
qed

theorem C5_score_combination_witness:
  "FoodType \<lparr>Energy = Fin 3370, Sugars = Fin 50, SaturatedFattyAcids = Fin 0,
             Sodium = Fin 0, Fruits = Fin 0, Fiber = Fin 5, Protein = Fin 10,
             IsWater = False, FoodType = Food\<rparr> \<noteq> Water
   \<and> (\<exists>r. CalcNutritionalScore
             \<lparr>Energy = Fin 3370, Sugars = Fin 50, SaturatedFattyAcids = Fin 0,
              Sodium = Fin 0, Fruits = Fin 0, Fiber = Fin 5, Protein = Fin 10,
              IsWater = False, FoodType = Food\<rparr> = Inr r
          \<and> Negative r = 20 \<and> Positive r = 10 \<and> Value r = 15)"
  using C5_score_combination
    [of "\<lparr>Energy = Fin 3370, Sugars = Fin 50, SaturatedFattyAcids = Fin 0,
          Sodium = Fin 0, Fruits = Fin 0, Fiber = Fin 5, Protein = Fin 10,
          IsWater = False, FoodType = Food\<rparr>"]
  by (simp add: nutri_defs)

subsection \<open>Luhn: strings that are not all digits\<close>

text \<open>
  Claim C6. On every string holding at least one character that is not a decimal digit
  \<^verbatim>\<open>luhnAlgorithm\<close> returns false; on no string at all does it panic, so nothing but a
  boolean reaches the caller. In particular \<^verbatim>\<open>12a4\<close> gives false.
\<close>

theorem C6_nondigit_false:
  "((\<exists>c\<in>set input. \<not> is_decimal_digit c) \<longrightarrow> luhnAlgorithm input = Inr False)
   \<and> (\<exists>b. luhnAlgorithm input = Inr b)
   \<and> luhnAlgorithm ''12a4'' = Inr False"
proof (intro conjI impI)
  assume "\<exists>c\<in>set input. \<not> is_decimal_digit c"
  then show "luhnAlgorithm input = Inr False" by (rule luhn_nondigit)
next
  show "\<exists>b. luhnAlgorithm input = Inr b"
    using luhn_digits [of input] luhn_nondigit [of input] by blast
next
  show "luhnAlgorithm ''12a4'' = Inr False"
    by (simp add: luhnAlgorithm_def Atoi_def)
qed

theorem C6_nondigit_false_witness:
  "(\<exists>c\<in>set ''4539 1488''. \<not> is_decimal_digit c) \<and> luhnAlgorithm ''4539 1488'' = Inr False"
proof -
  have h: "\<exists>c\<in>set ''4539 1488''. \<not> is_decimal_digit c"
    by (simp add: is_decimal_digit_def)
  from C6_nondigit_false [of "''4539 1488''"] h
  have "luhnAlgorithm ''4539 1488'' = Inr False" by blast
  with h show ?thesis by blast
qed

subsection \<open>Luhn: the empty string\<close>

text \<open>
  Claim C7. \<^verbatim>\<open>luhnAlgorithm\<close> applied to the empty string returns true: no loop runs,
  the sum is 0, and 0 is a multiple of 10.
\<close>

theorem C7_empty_string_valid: "luhnAlgorithm '''' = Inr True"
  by (simp add: luhnAlgorithm_def)

subsection \<open>Nutri-Score: monotonicity of the negative points\<close>

text \<open>
  Claim C8. The threshold lookup is monotone in the value, for every table; hence, for
  every category, raising one of energy, sugar, saturated fat or sodium from \<open>v\<close> to
  \<open>v'\<close> with \<open>v \<le> v'\<close> (as \<^verbatim>\<open>float64\<close> values, so neither is NaN) and leaving every
  other field alone never lowers the negative subtotal that \<^verbatim>\<open>CalcNutritionalScore\<close>
  returns.
\<close>

theorem C8_negative_points_monotone:
  assumes "f64_le v v'"
  shows "getPointsFromRange v levels \<le> getPointsFromRange v' levels
    \<and> (\<exists>r r'. CalcNutritionalScore (n\<lparr>Energy := v\<rparr>) = Inr r
           \<and> CalcNutritionalScore (n\<lparr>Energy := v'\<rparr>) = Inr r' \<and> Negative r \<le> Negative r')
    \<and> (\<exists>r r'. CalcNutritionalScore (n\<lparr>Sugars := v\<rparr>) = Inr r
           \<and> CalcNutritionalScore (n\<lparr>Sugars := v'\<rparr>) = Inr r' \<and> Negative r \<le> Negative r')
    \<and> (\<exists>r r'. CalcNutritionalScore (n\<lparr>SaturatedFattyAcids := v\<rparr>) = Inr r
           \<and> CalcNutritionalScore (n\<lparr>SaturatedFattyAcids := v'\<rparr>) = Inr r'
           \<and> Negative r \<le> Negative r')
    \<and> (\<exists>r r'. CalcNutritionalScore (n\<lparr>Sodium := v\<rparr>) = Inr r
           \<and> CalcNutritionalScore (n\<lparr>Sodium := v'\<rparr>) = Inr r' \<and> Negative r \<le> Negative r')"
proof -
  have m: "getPointsFromRange v ls \<le> getPointsFromRange v' ls" for ls
    using assms by (rule getPointsFromRange_mono)
  have key: "\<exists>r r'. CalcNutritionalScore a = Inr r \<and> CalcNutritionalScore b = Inr r'
      \<and> Negative r \<le> Negative r'"
    if ft: "FoodType a = FoodType b"
      and le: "EnergyKJ_GetPoints (Energy a) (FoodType a)
          + SugarGram_GetPoints (Sugars a) (FoodType a)
          + SaturatedFattyAcids_GetPoints (SaturatedFattyAcids a) (FoodType a)
          + SodiumMilligram_GetPoints (Sodium a) (FoodType a)
        \<le> EnergyKJ_GetPoints (Energy b) (FoodType b)
          + SugarGram_GetPoints (Sugars b) (FoodType b)
          + SaturatedFattyAcids_GetPoints (SaturatedFattyAcids b) (FoodType b)
          + SodiumMilligram_GetPoints (Sodium b) (FoodType b)"
    for a b :: NutritionalData
  proof (cases "FoodType a = Water")
    case True
    then show ?thesis
      using CalcNutritionalScore_Water [of a] CalcNutritionalScore_Water [of b] ft by simp
  next
    case False
    with ft have fb: "FoodType b \<noteq> Water" by simp
    from CalcNutritionalScore_other [OF False] CalcNutritionalScore_other [OF fb] le
    show ?thesis by fastforce
  qed
  have e: "EnergyKJ_GetPoints v st \<le> EnergyKJ_GetPoints v' st" for st
    using m by (simp add: EnergyKJ_GetPoints_def)
  have s: "SugarGram_GetPoints v st \<le> SugarGram_GetPoints v' st" for st
    using m by (simp add: SugarGram_GetPoints_def)
  have f: "SaturatedFattyAcids_GetPoints v st \<le> SaturatedFattyAcids_GetPoints v' st" for st
    using m by (simp add: SaturatedFattyAcids_GetPoints_def)
  have d: "SodiumMilligram_GetPoints v st \<le> SodiumMilligram_GetPoints v' st" for st
    using m by (simp add: SodiumMilligram_GetPoints_def)
  show ?thesis
  proof (intro conjI)
    show "getPointsFromRange v levels \<le> getPointsFromRange v' levels" by (rule m)
    show "\<exists>r r'. CalcNutritionalScore (n\<lparr>Energy := v\<rparr>) = Inr r
           \<and> CalcNutritionalScore (n\<lparr>Energy := v'\<rparr>) = Inr r' \<and> Negative r \<le> Negative r'"
      by (rule key) (simp_all add: e)
    show "\<exists>r r'. CalcNutritionalScore (n\<lparr>Sugars := v\<rparr>) = Inr r
           \<and> CalcNutritionalScore (n\<lparr>Sugars := v'\<rparr>) = Inr r' \<and> Negative r \<le> Negative r'"
      by (rule key) (simp_all add: s)
    show "\<exists>r r'. CalcNutritionalScore (n\<lparr>SaturatedFattyAcids := v\<rparr>) = Inr r
           \<and> CalcNutritionalScore (n\<lparr>SaturatedFattyAcids := v'\<rparr>) = Inr r'
           \<and> Negative r \<le> Negative r'"
      by (rule key) (simp_all add: f)
    show "\<exists>r r'. CalcNutritionalScore (n\<lparr>Sodium := v\<rparr>) = Inr r
           \<and> CalcNutritionalScore (n\<lparr>Sodium := v'\<rparr>) = Inr r' \<and> Negative r \<le> Negative r'"
      by (rule key) (simp_all add: d)
  qed
qed

theorem C8_negative_points_monotone_witness:
  "f64_le (Fin 100) (Fin 3370)
   \<and> getPointsFromRange (Fin 100) energyLevels \<le> getPointsFromRange (Fin 3370) energyLevels
   \<and> (\<exists>r r'.
         CalcNutritionalScore
           (\<lparr>Energy = Fin 0, Sugars = Fin 20, SaturatedFattyAcids = Fin 0, Sodium = Fin 0,
             Fruits = Fin 0, Fiber = Fin 0, Protein = Fin 0, IsWater = False,
             FoodType = Food\<rparr>\<lparr>Energy := Fin 100\<rparr>) = Inr r
       \<and> CalcNutritionalScore
           (\<lparr>Energy = Fin 0, Sugars = Fin 20, SaturatedFattyAcids = Fin 0, Sodium = Fin 0,
             Fruits = Fin 0, Fiber = Fin 0, Protein = Fin 0, IsWater = False,
             FoodType = Food\<rparr>\<lparr>Energy := Fin 3370\<rparr>) = Inr r'
       \<and> Negative r \<le> Negative r')"
  using C8_negative_points_monotone
    [of "Fin 100" "Fin 3370" energyLevels
        "\<lparr>Energy = Fin 0, Sugars = Fin 20, SaturatedFattyAcids = Fin 0, Sodium = Fin 0,
          Fruits = Fin 0, Fiber = Fin 0, Protein = Fin 0, IsWater = False,
          FoodType = Food\<rparr>"]
  by simp

subsection \<open>Nutri-Score: the grade index\<close>

text \<open>
  Claim C9. For every score the lookup against either four-element grade table lies
  between 0 and 4, so \<^verbatim>\<open>CalcNutriGrade\<close> never indexes \<^verbatim>\<open>gradeScale\<close> out of bounds and
  returns one of \<^verbatim>\<open>A\<close> to \<^verbatim>\<open>E\<close>, and so does the grade of \<^verbatim>\<open>CalcNutritionalScore\<close>,
  for every input: the category tag ranges over all integers here, not only the four
  named ones.
\<close>

theorem C9_grade_index_in_range:
  "0 \<le> getPointsFromRange (float64_of_int score) (map Fin [18, 10, 2, -1])
   \<and> getPointsFromRange (float64_of_int score) (map Fin [18, 10, 2, -1]) \<le> 4
   \<and> 0 \<le> getPointsFromRange (float64_of_int score) (map Fin [9, 5, 1, -2])
   \<and> getPointsFromRange (float64_of_int score) (map Fin [9, 5, 1, -2]) \<le> 4
   \<and> (\<exists>g. CalcNutriGrade ns score = Inr g \<and> g \<in> {''A'', ''B'', ''C'', ''D'', ''E''})
   \<and> (\<exists>r. CalcNutritionalScore n = Inr r \<and> Grade r \<in> {''A'', ''B'', ''C'', ''D'', ''E''})"
proof -
  have a: "0 \<le> getPointsFromRange x (map Fin [a, b, c, d])
      \<and> getPointsFromRange x (map Fin [a, b, c, d]) \<le> 4" for x a b c d
    using getPointsFromRange_bounds [of x "map Fin [a, b, c, d]"] by simp
  have r: "\<exists>r. CalcNutritionalScore n = Inr r \<and> Grade r \<in> {''A'', ''B'', ''C'', ''D'', ''E''}"
  proof (cases "FoodType n = Water")
    case True
    then show ?thesis using CalcNutritionalScore_Water [of n] by simp
  next
    case False
    from CalcNutritionalScore_other [OF False] show ?thesis by fastforce
  qed
  show ?thesis using a CalcNutriGrade_total [of ns score] r by blast
qed

subsection \<open>Nutri-Score: the water flag\<close>

text \<open>
  Claim C10. The \<^verbatim>\<open>IsWater\<close> field is never read: changing it alone leaves the whole
  result of \<^verbatim>\<open>CalcNutritionalScore\<close> (score, grade, positive, negative and category)
  unchanged. Only the \<^verbatim>\<open>FoodType\<close> tag selects the Water case.
\<close>

theorem C10_IsWater_ignored:
  "CalcNutritionalScore (n\<lparr>IsWater := b\<rparr>) = CalcNutritionalScore n"
proof -
  have g: "CalcNutriGrade (n\<lparr>IsWater := b\<rparr>) score = CalcNutriGrade n score" for score
    by (simp add: CalcNutriGrade_def)
  have sel: "FoodType (n\<lparr>IsWater := b\<rparr>) = FoodType n"
    "Energy (n\<lparr>IsWater := b\<rparr>) = Energy n"
    "Sugars (n\<lparr>IsWater := b\<rparr>) = Sugars n"
    "SaturatedFattyAcids (n\<lparr>IsWater := b\<rparr>) = SaturatedFattyAcids n"
    "Sodium (n\<lparr>IsWater := b\<rparr>) = Sodium n"
    "Fruits (n\<lparr>IsWater := b\<rparr>) = Fruits n"
    "Fiber (n\<lparr>IsWater := b\<rparr>) = Fiber n"
    "Protein (n\<lparr>IsWater := b\<rparr>) = Protein n"
    by simp_all
  show ?thesis
    unfolding CalcNutritionalScore_def g sel by (rule refl)
qed

end
